theory Spec2Isabelle
  imports Main
begin

section \<open>Connections, exceptions and log lines\<close>

text \<open>
  A client connection is the object \<^verbatim>\<open>websocket\<close> the handler receives; the code
  identifies it by \<^verbatim>\<open>id(websocket)\<close>, a number.
\<close>

type_synonym conn = nat

text \<open>
  The exceptions the modelled code paths can meet: \<^verbatim>\<open>set.remove\<close> on a missing
  element, \<^verbatim>\<open>client.send\<close> on a closed transport or with a write error,
  \<^verbatim>\<open>json.dumps\<close> on a value it cannot serialise, \<^verbatim>\<open>future.result\<close> after its
  timeout, scheduling on a closed event loop, and a method call on \<^verbatim>\<open>None\<close>.
\<close>

datatype error =
    KeyError conn
  | ConnectionClosed
  | WriteError
  | TypeError
  | TimeoutError
  | RuntimeError
  | AttributeError

text \<open>How a call ends: it returns (always \<^verbatim>\<open>None\<close> in the modelled functions) or raises.\<close>

datatype outcome = Returned | Raised error

datatype level = INFO | WARNING | ERROR

text \<open>One constructor per logging call of \<^verbatim>\<open>websocket_server.py\<close> and \<^verbatim>\<open>main_engine.py\<close>.\<close>

datatype log_line =
    ClientConnected conn nat
  | MessageReceived conn string
  | ClientDisconnected conn
  | ClientRemoved conn nat
  | NoClients
  | PreparingBroadcast string
  | BroadcastDone nat
  | ServerInitialised
  | ServerStarting
  | ServerStarted
  | EngineInitialising
  | EngineInitialised
  | EngineAlreadyRunning
  | EngineStarting
  | EngineStarted
  | AsyncThreadStarted
  | AsyncComponentError error
  | LoopClosedLine
  | EngineNotRunning
  | EngineStopping
  | EngineStopped
  | ServerNotInitialised
  | LoopNotReady
  | BroadcastTimedOut
  | BroadcastFailed error

section \<open>The registry: \<^verbatim>\<open>WebSocketServer.connected_clients\<close>\<close>

text \<open>
  \<^verbatim>\<open>connected_clients\<close> is a Python \<^verbatim>\<open>set\<close>. It is modelled by the list of its
  members in the order a \<^verbatim>\<open>for\<close> loop visits them; a reachable registry has no
  duplicates. \<^verbatim>\<open>set.add\<close> leaves a set that has the element as it is;
  \<^verbatim>\<open>set.remove\<close> raises \<^verbatim>\<open>KeyError\<close> when the element is missing. Python does
  not say where a new element lands in the iteration order; the model puts it last, and no
  theorem below depends on the place.
\<close>

definition set_add :: "conn \<Rightarrow> conn list \<Rightarrow> conn list" where
  "set_add c cs = (if c \<in> set cs then cs else cs @ [c])"

definition set_remove :: "conn \<Rightarrow> conn list \<Rightarrow> error + conn list" where
  "set_remove c cs = (if c \<in> set cs then Inr (removeAll c cs) else Inl (KeyError c))"

text \<open>
  Of the attributes of \<^verbatim>\<open>WebSocketServer\<close> the registry is kept, and what the
  module's logger received; \<^verbatim>\<open>host\<close>, \<^verbatim>\<open>port\<close> and \<^verbatim>\<open>server\<close> play no part
  in the code paths modelled.
\<close>

record ws_server =
  connected_clients :: "conn list"
  logged :: "(level \<times> log_line) list"

definition add_log :: "level \<times> log_line \<Rightarrow> ws_server \<Rightarrow> ws_server" where
  "add_log l s = s\<lparr>logged := logged s @ [l]\<rparr>"

text \<open>\<^verbatim>\<open>WebSocketServer.__init__\<close>: no client yet.\<close>

definition init_server :: ws_server where
  "init_server = \<lparr>connected_clients = [], logged = [(INFO, ServerInitialised)]\<rparr>"

section \<open>The connection handler\<close>

text \<open>
  \<^verbatim>\<open>handler\<close> is a coroutine: it runs on the loop in pieces, between which other
  coroutines run. Its pieces are: the registration (lines 38 to 40), one log line per
  message received (line 46), the log line of the \<^verbatim>\<open>except\<close> branch (line 50) and
  the \<^verbatim>\<open>finally\<close> block (lines 53 and 54).
\<close>

definition handler_register :: "conn \<Rightarrow> ws_server \<Rightarrow> ws_server" where
  "handler_register websocket s =
     (let cs = set_add websocket (connected_clients s)
      in add_log (INFO, ClientConnected websocket (length cs)) (s\<lparr>connected_clients := cs\<rparr>))"

definition handler_message :: "conn \<Rightarrow> string \<Rightarrow> ws_server \<Rightarrow> ws_server" where
  "handler_message websocket message s = add_log (INFO, MessageReceived websocket message) s"

definition handler_closed :: "conn \<Rightarrow> ws_server \<Rightarrow> ws_server" where
  "handler_closed websocket s = add_log (INFO, ClientDisconnected websocket) s"

text \<open>
  The \<^verbatim>\<open>finally\<close> block: when \<^verbatim>\<open>remove\<close> raises, the exception leaves the handler
  and line 54 is not reached.
\<close>

definition handler_unregister :: "conn \<Rightarrow> ws_server \<Rightarrow> outcome \<times> ws_server" where
  "handler_unregister websocket s =
     (case set_remove websocket (connected_clients s) of
        Inl e \<Rightarrow> (Raised e, s)
      | Inr cs \<Rightarrow>
          (Returned,
           add_log (INFO, ClientRemoved websocket (length cs)) (s\<lparr>connected_clients := cs\<rparr>)))"

text \<open>
  The whole handler for one connection when nothing else runs in between: the messages
  it receives, and whether the iteration ends with \<^verbatim>\<open>ConnectionClosed\<close>.
\<close>

definition handler :: "conn \<Rightarrow> string list \<Rightarrow> bool \<Rightarrow> ws_server \<Rightarrow> outcome \<times> ws_server" where
  "handler websocket messages closed_with_error s =
     (let s1 = handler_register websocket s;
          s2 = fold (handler_message websocket) messages s1;
          s3 = (if closed_with_error then handler_closed websocket s2 else s2)
      in handler_unregister websocket s3)"

section \<open>Broadcasting: \<^verbatim>\<open>WebSocketServer.broadcast_signal\<close>\<close>

text \<open>
  While \<^verbatim>\<open>broadcast_signal\<close> waits in \<^verbatim>\<open>await asyncio.gather(*tasks)\<close>, its only
  suspension point, the loop runs the pieces of the connection handlers: clients connect,
  send messages and disconnect.
\<close>

datatype event = Connect conn | Receive conn string | ConnectionLost conn | Disconnect conn

text \<open>
  A \<^verbatim>\<open>KeyError\<close> of the \<^verbatim>\<open>finally\<close> block ends that handler's own task; the
  server state is as before it.
\<close>

fun run_event :: "event \<Rightarrow> ws_server \<Rightarrow> ws_server" where
  "run_event (Connect c) s = handler_register c s"
| "run_event (Receive c m) s = handler_message c m s"
| "run_event (ConnectionLost c) s = handler_closed c s"
| "run_event (Disconnect c) s = snd (handler_unregister c s)"

definition run_events :: "event list \<Rightarrow> ws_server \<Rightarrow> ws_server" where
  "run_events evs s = fold run_event evs s"

text \<open>
  \<^verbatim>\<open>asyncio.gather(*tasks)\<close> without \<^verbatim>\<open>return_exceptions\<close>: when every task
  succeeds it returns; otherwise the first exception raised is raised in the awaiting
  coroutine, and the other tasks are not cancelled. The tasks are taken to finish in the
  order they were created; with a single failing task the order plays no part.
\<close>

fun gather :: "error option list \<Rightarrow> error option" where
  "gather [] = None"
| "gather (None # rs) = gather rs"
| "gather (Some e # rs) = Some e"

text \<open>
  The network is a parameter: \<open>send client message\<close> is \<open>None\<close> when
  \<^verbatim>\<open>client.send(message)\<close> succeeds, and the exception it raises otherwise. The frames
  delivered are those of the tasks whose send succeeds.
\<close>

definition delivered ::
  "(conn \<Rightarrow> string \<Rightarrow> error option) \<Rightarrow> (conn \<times> string) list \<Rightarrow> (conn \<times> string) list" where
  "delivered send ts = filter (\<lambda>(client, m). send client m = None) ts"

text \<open>
  What one run of a broadcast coroutine does: how it ends, the send tasks it created
  (client and message), the frames delivered, and the state it leaves.
\<close>

record 'st broadcast =
  ended :: outcome
  tasks :: "(conn \<times> string) list"
  frames :: "(conn \<times> string) list"
  after :: 'st

text \<open>
  \<^verbatim>\<open>json.dumps\<close> belongs to the standard library and is a parameter: \<open>dumps\<close>
  gives the text, or the exception for a value that cannot be serialised. \<open>during\<close>
  are the handler events the loop runs while the broadcast is suspended in
  \<^verbatim>\<open>gather\<close>. The last log line reads \<^verbatim>\<open>len(self.connected_clients)\<close> after the
  wait.
\<close>

definition broadcast_signal ::
  "('sig \<Rightarrow> error + string) \<Rightarrow> (conn \<Rightarrow> string \<Rightarrow> error option) \<Rightarrow> event list
     \<Rightarrow> ws_server \<Rightarrow> 'sig \<Rightarrow> ws_server broadcast" where
  "broadcast_signal dumps send during s signal_data =
     (if connected_clients s = [] then
        \<lparr>ended = Returned, tasks = [], frames = [], after = add_log (WARNING, NoClients) s\<rparr>
      else
        case dumps signal_data of
          Inl e \<Rightarrow> \<lparr>ended = Raised e, tasks = [], frames = [], after = s\<rparr>
        | Inr message \<Rightarrow>
            let s1 = add_log (INFO, PreparingBroadcast message) s;
                ts = map (\<lambda>client. (client, message)) (connected_clients s1)
            in if ts \<noteq> [] then
                 let s2 = run_events during s1
                 in (case gather (map (\<lambda>(client, m). send client m) ts) of
                       Some e \<Rightarrow>
                         \<lparr>ended = Raised e, tasks = ts, frames = delivered send ts, after = s2\<rparr>
                     | None \<Rightarrow>
                         \<lparr>ended = Returned, tasks = ts, frames = delivered send ts,
                          after = add_log (INFO, BroadcastDone (length (connected_clients s2))) s2\<rparr>)
               else \<lparr>ended = Returned, tasks = [], frames = [], after = s1\<rparr>)"

section \<open>The engine: \<^verbatim>\<open>ServerEngine\<close>\<close>

text \<open>
  The event loop the worker thread creates is running (inside \<^verbatim>\<open>run_until_complete\<close>
  or \<^verbatim>\<open>run_forever\<close>) until the thread's \<^verbatim>\<open>finally\<close> block closes it.
\<close>

datatype loop_state = LoopRunning | LoopClosed

record thread =
  daemon :: bool
  alive :: bool

record engine =
  active :: bool
  ws_server :: "ws_server option"
  async_loop :: "loop_state option"
  async_thread :: "thread option"
  engine_logged :: "(level \<times> log_line) list"

definition engine_log :: "level \<times> log_line \<Rightarrow> engine \<Rightarrow> engine" where
  "engine_log l e = e\<lparr>engine_logged := engine_logged e @ [l]\<rparr>"

text \<open>\<^verbatim>\<open>ServerEngine.__init__\<close>.\<close>

definition init_engine :: engine where
  "init_engine =
     \<lparr>active = False, ws_server = Some init_server, async_loop = None, async_thread = None,
      engine_logged = [(INFO, EngineInitialising), (INFO, EngineInitialised)]\<rparr>"

text \<open>
  \<^verbatim>\<open>_start_async_components\<close>, as far as the calling thread runs it: it creates the
  worker with \<^verbatim>\<open>daemon=True\<close> and starts it.
\<close>

definition start_async_components :: "engine \<Rightarrow> engine" where
  "start_async_components e =
     engine_log (INFO, AsyncThreadStarted)
       (e\<lparr>async_thread := Some \<lparr>daemon = True, alive = True\<rparr>\<rparr>)"

definition start :: "engine \<Rightarrow> engine" where
  "start e =
     (if active e then engine_log (WARNING, EngineAlreadyRunning) e
      else
        let e1 = engine_log (INFO, EngineStarting) e;
            e2 = start_async_components e1;
            e3 = e2\<lparr>active := True\<rparr>
        in engine_log (INFO, EngineStarted) e3)"

text \<open>
  \<^verbatim>\<open>WebSocketServer.start_server\<close>: \<open>startup\<close> is the exception of
  \<^verbatim>\<open>websockets.serve\<close> (the address cannot be bound), if any.
\<close>

definition start_server :: "error option \<Rightarrow> ws_server \<Rightarrow> outcome \<times> ws_server" where
  "start_server startup s =
     (let s1 = add_log (INFO, ServerStarting) s
      in case startup of
           Some err \<Rightarrow> (Raised err, s1)
         | None \<Rightarrow> (Returned, add_log (INFO, ServerStarted) s1))"

text \<open>
  The worker's body \<^verbatim>\<open>run_async_in_thread\<close>, up to the point where it stays: it
  creates the loop, stores it in \<^verbatim>\<open>self.async_loop\<close> and starts the server. When that
  succeeds the thread stays in \<^verbatim>\<open>loop.run_forever()\<close>; nothing in the repository
  calls \<^verbatim>\<open>loop.stop()\<close>. When it raises (also when \<^verbatim>\<open>self.ws_server\<close> is
  \<^verbatim>\<open>None\<close>), the error is logged, the \<^verbatim>\<open>finally\<close> block closes the loop and the
  thread ends; \<^verbatim>\<open>self.async_loop\<close> still refers to the closed loop.
\<close>

definition run_async_in_thread :: "error option \<Rightarrow> engine \<Rightarrow> engine" where
  "run_async_in_thread startup e =
     (let e1 = e\<lparr>async_loop := Some LoopRunning\<rparr>;
          (started, e2) =
            (case ws_server e1 of
               None \<Rightarrow> (Raised AttributeError, e1)
             | Some ws \<Rightarrow>
                 (case start_server startup ws of
                    (r, ws1) \<Rightarrow> (r, e1\<lparr>ws_server := Some ws1\<rparr>)))
      in case started of
           Returned \<Rightarrow> e2
         | Raised err \<Rightarrow>
             engine_log (INFO, LoopClosedLine)
               ((engine_log (ERROR, AsyncComponentError err) e2)
                  \<lparr>async_loop := Some LoopClosed,
                   async_thread := map_option (\<lambda>t. t\<lparr>alive := False\<rparr>) (async_thread e2)\<rparr>))"

text \<open>\<^verbatim>\<open>ServerEngine.stop\<close>: lines 83 to 95.\<close>

definition stop :: "engine \<Rightarrow> engine" where
  "stop e =
     (if \<not> active e then engine_log (WARNING, EngineNotRunning) e
      else
        let e1 = engine_log (INFO, EngineStopping) e;
            e2 = e1\<lparr>active := False\<rparr>
        in engine_log (INFO, EngineStopped) e2)"

text \<open>
  The coroutine \<^verbatim>\<open>ServerEngine.broadcast_signal\<close>. A \<^verbatim>\<open>WebSocketServer\<close> object is
  true in a condition, so the test of line 102 is whether the attribute is \<^verbatim>\<open>None\<close>.
\<close>

definition engine_broadcast_signal ::
  "('sig \<Rightarrow> error + string) \<Rightarrow> (conn \<Rightarrow> string \<Rightarrow> error option) \<Rightarrow> event list
     \<Rightarrow> engine \<Rightarrow> 'sig \<Rightarrow> engine broadcast" where
  "engine_broadcast_signal dumps send during e signal_data =
     (case ws_server e of
        Some ws \<Rightarrow>
          (let r = broadcast_signal dumps send during ws signal_data
           in \<lparr>ended = ended r, tasks = tasks r, frames = frames r,
               after = e\<lparr>ws_server := Some (after r)\<rparr>\<rparr>)
      | None \<Rightarrow>
          \<lparr>ended = Returned, tasks = [], frames = [],
           after = engine_log (ERROR, ServerNotInitialised) e\<rparr>)"

section \<open>The bridge: \<^verbatim>\<open>ServerEngine.broadcast_signal_sync\<close>\<close>

text \<open>
  Whether the coroutine finishes within the five seconds \<^verbatim>\<open>future.result\<close> waits is
  decided by the loop and the network, not by the caller: it is a parameter.
\<close>

datatype wait = Completes | TimesOut

text \<open>
  One call from a thread outside the loop: what the caller gets, the coroutine handed to
  the loop with what it does there (\<open>None\<close> when nothing was scheduled), and the engine
  afterwards. The function never calls \<^verbatim>\<open>future.cancel()\<close>, so a coroutine handed to a
  running loop runs whatever the caller's wait does.
\<close>

record sync_call =
  caller_gets :: outcome
  submitted :: "engine broadcast option"
  engine_after :: engine

text \<open>
  Scheduling on a closed loop raises \<^verbatim>\<open>RuntimeError\<close> in
  \<^verbatim>\<open>run_coroutine_threadsafe\<close> (line 117, outside the \<^verbatim>\<open>try\<close>). The timeout of
  \<^verbatim>\<open>future.result\<close> is caught by the first or by the second \<^verbatim>\<open>except\<close> clause,
  depending on whether the interpreter identifies \<^verbatim>\<open>asyncio.TimeoutError\<close> with the
  exception \<^verbatim>\<open>future.result\<close> raises (Python 3.11 and later do; the model follows
  them); both clauses log an error and fall through to the end of the function.
\<close>

definition broadcast_signal_sync ::
  "('sig \<Rightarrow> error + string) \<Rightarrow> (conn \<Rightarrow> string \<Rightarrow> error option) \<Rightarrow> event list \<Rightarrow> wait
     \<Rightarrow> engine \<Rightarrow> 'sig \<Rightarrow> sync_call" where
  "broadcast_signal_sync dumps send during w e signal_data =
     (case async_loop e of
        None \<Rightarrow>
          \<lparr>caller_gets = Returned, submitted = None,
           engine_after = engine_log (ERROR, LoopNotReady) e\<rparr>
      | Some LoopClosed \<Rightarrow>
          \<lparr>caller_gets = Raised RuntimeError, submitted = None, engine_after = e\<rparr>
      | Some LoopRunning \<Rightarrow>
          (let r = engine_broadcast_signal dumps send during e signal_data
           in case w of
                TimesOut \<Rightarrow>
                  \<lparr>caller_gets = Returned, submitted = Some r,
                   engine_after = engine_log (ERROR, BroadcastTimedOut) (after r)\<rparr>
              | Completes \<Rightarrow>
                  (case ended r of
                     Returned \<Rightarrow>
                       \<lparr>caller_gets = Returned, submitted = Some r, engine_after = after r\<rparr>
                   | Raised err \<Rightarrow>
                       \<lparr>caller_gets = Returned, submitted = Some r,
                        engine_after = engine_log (ERROR, BroadcastFailed err) (after r)\<rparr>)))"

section \<open>The console: the \<^verbatim>\<open>test_signal\<close> command of \<^verbatim>\<open>console_listener\<close>\<close>

datatype printed =
    PrintBroadcasting
  | PrintSuccess
  | PrintTimeout
  | PrintError error
  | PrintLoopNotReady

text \<open>
  What the listener prints, how the command ends for the listener thread, and the
  coroutine handed to the loop.
\<close>

record console_call =
  printed_lines :: "printed list"
  listener_gets :: outcome
  console_submitted :: "engine broadcast option"

text \<open>
  Lines 47 to 65 of \<^verbatim>\<open>run_server.py\<close>. The engine always has the attribute
  \<^verbatim>\<open>async_loop\<close>, and a loop object is true in a condition. The \<^verbatim>\<open>try\<close> around
  the command catches \<^verbatim>\<open>EOFError\<close> and \<^verbatim>\<open>KeyboardInterrupt\<close> only, so the
  \<^verbatim>\<open>RuntimeError\<close> of a closed loop leaves the listener.
\<close>

definition console_test_signal ::
  "('sig \<Rightarrow> error + string) \<Rightarrow> (conn \<Rightarrow> string \<Rightarrow> error option) \<Rightarrow> event list \<Rightarrow> wait
     \<Rightarrow> engine \<Rightarrow> 'sig \<Rightarrow> console_call" where
  "console_test_signal dumps send during w e test_signal =
     (case async_loop e of
        None \<Rightarrow>
          \<lparr>printed_lines = [PrintBroadcasting, PrintLoopNotReady], listener_gets = Returned,
           console_submitted = None\<rparr>
      | Some LoopClosed \<Rightarrow>
          \<lparr>printed_lines = [PrintBroadcasting], listener_gets = Raised RuntimeError,
           console_submitted = None\<rparr>
      | Some LoopRunning \<Rightarrow>
          (let r = engine_broadcast_signal dumps send during e test_signal
           in case w of
                TimesOut \<Rightarrow>
                  \<lparr>printed_lines = [PrintBroadcasting, PrintTimeout], listener_gets = Returned,
                   console_submitted = Some r\<rparr>
              | Completes \<Rightarrow>
                  (case ended r of
                     Returned \<Rightarrow>
                       \<lparr>printed_lines = [PrintBroadcasting, PrintSuccess],
                        listener_gets = Returned, console_submitted = Some r\<rparr>
                   | Raised err \<Rightarrow>
                       \<lparr>printed_lines = [PrintBroadcasting, PrintError err],
                        listener_gets = Returned, console_submitted = Some r\<rparr>)))"

section \<open>Concrete inputs for the examples\<close>

text \<open>
  A signal with text fields, a serialiser for it that writes the fields as a JSON object
  the way \<^verbatim>\<open>json.dumps\<close> separates them, and the matching reader. They stand for the
  library's \<^verbatim>\<open>dumps\<close> and \<^verbatim>\<open>loads\<close> in the examples only; the theorems hold for
  every serialiser.
\<close>

definition dquote :: char where
  "dquote = CHR 0x22"

fun json_fields :: "(string \<times> string) list \<Rightarrow> string" where
  "json_fields [] = []"
| "json_fields [(k, v)] = dquote # k @ dquote # '': '' @ dquote # v @ [dquote]"
| "json_fields ((k, v) # kvs) =
     dquote # k @ dquote # '': '' @ dquote # v @ dquote # '', '' @ json_fields kvs"

definition example_dumps :: "(string \<times> string) list \<Rightarrow> error + string" where
  "example_dumps kvs = Inr (''{'' @ json_fields kvs @ ''}'')"

fun split_at_quotes :: "string \<Rightarrow> string \<Rightarrow> string list" where
  "split_at_quotes cur [] = [rev cur]"
| "split_at_quotes cur (c # cs) =
     (if c = dquote then rev cur # split_at_quotes [] cs else split_at_quotes (c # cur) cs)"

fun pair_fields :: "string list \<Rightarrow> (string \<times> string) list option" where
  "pair_fields [closing] = Some []"
| "pair_fields (sep1 # k # sep2 # v # rest) = map_option ((#) (k, v)) (pair_fields rest)"
| "pair_fields other = None"

definition example_loads :: "string \<Rightarrow> (string \<times> string) list option" where
  "example_loads text = pair_fields (split_at_quotes [] text)"

definition example_signal :: "(string \<times> string) list" where
  "example_signal = [(''action'', ''BUY''), (''symbol'', ''000001.SZ'')]"

definition example_message :: string where
  "example_message = ''{'' @ json_fields example_signal @ ''}''"

text \<open>Three connected clients; the transport of client 4 is closed in \<open>one_closed\<close>.\<close>

definition three_clients :: ws_server where
  "three_clients = \<lparr>connected_clients = [4, 5, 6], logged = []\<rparr>"

definition all_open :: "conn \<Rightarrow> string \<Rightarrow> error option" where
  "all_open client message = None"

definition one_closed :: "conn \<Rightarrow> string \<Rightarrow> error option" where
  "one_closed client message = (if client = 4 then Some ConnectionClosed else None)"

text \<open>
  An engine that was started, whose worker is inside \<^verbatim>\<open>run_forever\<close>, and to which
  two clients have connected.
\<close>

definition connect_client :: "conn \<Rightarrow> engine \<Rightarrow> engine" where
  "connect_client websocket e =
     e\<lparr>ws_server := map_option (handler_register websocket) (ws_server e)\<rparr>"

definition example_engine :: engine where
  "example_engine =
     connect_client 5 (connect_client 4 (run_async_in_thread None (start init_engine)))"

section \<open>Registry facts\<close>

lemma set_set_add: "set (set_add c cs) = insert c (set cs)"
  by (auto simp: set_add_def)

lemma distinct_set_add: "distinct cs \<Longrightarrow> distinct (set_add c cs)"
  by (simp add: set_add_def)

lemma set_add_idem: "set_add c (set_add c cs) = set_add c cs"
  by (simp add: set_add_def)

lemma length_set_add_new: "c \<notin> set cs \<Longrightarrow> length (set_add c cs) = Suc (length cs)"
  by (simp add: set_add_def)

lemma set_add_present: "c \<in> set cs \<Longrightarrow> set_add c cs = cs"
  by (simp add: set_add_def)

lemma set_remove_present:
  "c \<in> set cs \<Longrightarrow> set_remove c cs = Inr (removeAll c cs)"
  by (simp add: set_remove_def)

lemma set_remove_absent: "c \<notin> set cs \<Longrightarrow> set_remove c cs = Inl (KeyError c)"
  by (simp add: set_remove_def)

lemma length_removeAll_distinct:
  "distinct cs \<Longrightarrow> c \<in> set cs \<Longrightarrow> Suc (length (removeAll c cs)) = length cs"
  by (induction cs) auto

lemma clients_add_log [simp]: "connected_clients (add_log l s) = connected_clients s"
  by (simp add: add_log_def)

lemma logged_add_log [simp]: "logged (add_log l s) = logged s @ [l]"
  by (simp add: add_log_def)

lemma clients_handler_register [simp]:
  "connected_clients (handler_register c s) = set_add c (connected_clients s)"
  by (simp add: handler_register_def Let_def)

lemma clients_handler_message [simp]:
  "connected_clients (handler_message c m s) = connected_clients s"
  by (simp add: handler_message_def)

lemma clients_fold_handler_message [simp]:
  "connected_clients (fold (handler_message c) ms s) = connected_clients s"
  by (induction ms arbitrary: s) simp_all

lemma clients_handler_closed [simp]:
  "connected_clients (handler_closed c s) = connected_clients s"
  by (simp add: handler_closed_def)

section \<open>Claims about the registry\<close>

text \<open>
  C5. Registering a connection puts it into the registry. When it was not there, the
  number of registered connections grows by one and the others stay; when it was there,
  the registry is left as it is, so registering the same connection twice gives the
  registry that registering it once gives. The start of \<^verbatim>\<open>handler\<close> does exactly
  this to \<^verbatim>\<open>connected_clients\<close>.
\<close>

theorem register_adds_once:
  "websocket \<in> set (connected_clients (handler_register websocket s))
   \<and> set (connected_clients (handler_register websocket s))
       = insert websocket (set (connected_clients s))
   \<and> (websocket \<notin> set (connected_clients s) \<longrightarrow>
        length (connected_clients (handler_register websocket s))
          = length (connected_clients s) + 1)
   \<and> (websocket \<in> set (connected_clients s) \<longrightarrow>
        connected_clients (handler_register websocket s) = connected_clients s)
   \<and> connected_clients (handler_register websocket (handler_register websocket s))
       = connected_clients (handler_register websocket s)
   \<and> (distinct (connected_clients s) \<longrightarrow>
        distinct (connected_clients (handler_register websocket s)))"
  by (simp add: set_set_add set_add_idem length_set_add_new set_add_present distinct_set_add)

theorem register_adds_once_witness:
  "(3::nat) \<notin> set [1, 2] \<and> 1 \<in> set [1, 2::nat] \<and> distinct [1, 2::nat]
   \<and> connected_clients (handler_register 3 \<lparr>connected_clients = [1, 2], logged = []\<rparr>) = [1, 2, 3]
   \<and> length (connected_clients (handler_register 3 \<lparr>connected_clients = [1, 2], logged = []\<rparr>)) = 2 + 1
   \<and> connected_clients (handler_register 1 \<lparr>connected_clients = [1, 2], logged = []\<rparr>) = [1, 2]
   \<and> connected_clients
        (handler_register 3 (handler_register 3 \<lparr>connected_clients = [1, 2], logged = []\<rparr>))
       = [1, 2, 3]"
  using register_adds_once [of 3 "\<lparr>connected_clients = [1, 2], logged = []\<rparr>"]
        register_adds_once [of 1 "\<lparr>connected_clients = [1, 2], logged = []\<rparr>"]
  by (simp add: set_add_def)


text \<open>
  C4, as the code has it. \<^verbatim>\<open>handler\<close> removes its connection with
  \<^verbatim>\<open>set.remove\<close>: a connection that is present is removed (and only it), and the
  call returns; for a connection that is absent \<^verbatim>\<open>KeyError\<close> is raised and the
  registry stays as it was. Inside \<^verbatim>\<open>handler\<close> the removal follows the
  registration of the same connection, so a handler that runs without another one in
  between returns and leaves the registry without its connection.
\<close>

theorem unregister_removes_or_raises:
  "(websocket \<in> set (connected_clients s) \<longrightarrow>
      fst (handler_unregister websocket s) = Returned
      \<and> set (connected_clients (snd (handler_unregister websocket s)))
          = set (connected_clients s) - {websocket})
   \<and> (websocket \<notin> set (connected_clients s) \<longrightarrow>
      handler_unregister websocket s = (Raised (KeyError websocket), s))
   \<and> fst (handler websocket messages closed_with_error s) = Returned
   \<and> set (connected_clients (snd (handler websocket messages closed_with_error s)))
       = set (connected_clients s) - {websocket}"
  by (auto simp: handler_unregister_def set_remove_def handler_def Let_def set_set_add)

theorem unregister_removes_or_raises_witness:
  "(2::nat) \<in> set [1, 2, 3] \<and> (7::nat) \<notin> set [1, 2, 3]
   \<and> handler_unregister 2 \<lparr>connected_clients = [1, 2, 3], logged = []\<rparr>
       = (Returned, \<lparr>connected_clients = [1, 3], logged = [(INFO, ClientRemoved 2 2)]\<rparr>)
   \<and> handler_unregister 7 \<lparr>connected_clients = [1, 2, 3], logged = []\<rparr>
       = (Raised (KeyError 7), \<lparr>connected_clients = [1, 2, 3], logged = []\<rparr>)
   \<and> connected_clients
        (snd (handler 7 [''hello''] True \<lparr>connected_clients = [1, 2, 3], logged = []\<rparr>))
       = [1, 2, 3]"
  using unregister_removes_or_raises
          [of 2 "\<lparr>connected_clients = [1, 2, 3], logged = []\<rparr>" "[]" False]
        unregister_removes_or_raises
          [of 7 "\<lparr>connected_clients = [1, 2, 3], logged = []\<rparr>" "[''hello'']" True]
  by (simp add: handler_unregister_def set_remove_def handler_def Let_def set_add_def
      handler_register_def handler_message_def handler_closed_def add_log_def)

text \<open>
  C4 as the specification states it fails: unregistering a connection that was never
  registered raises \<^verbatim>\<open>KeyError\<close>.
\<close>

theorem unregister_absent_raises:
  "handler_unregister 7 init_server = (Raised (KeyError 7), init_server)"
  by (simp add: handler_unregister_def set_remove_def init_server_def)

section \<open>Facts about the broadcast\<close>

lemma gather_None_iff: "gather rs = None \<longleftrightarrow> (\<forall>r \<in> set rs. r = None)"
  by (induction rs rule: gather.induct) simp_all

lemma gather_single_failure:
  "c \<in> set cs \<Longrightarrow> f c = Some e \<Longrightarrow> \<forall>c' \<in> set cs - {c}. f c' = None \<Longrightarrow>
   gather (map f cs) = Some e"
proof (induction cs)
  case Nil
  then show ?case by simp
next
  case (Cons a cs)
  show ?case
  proof (cases "a = c")
    case True
    with Cons.prems show ?thesis by simp
  next
    case False
    with Cons.prems have "f a = None" "c \<in> set cs" "\<forall>c' \<in> set cs - {c}. f c' = None"
      by auto
    with Cons.IH Cons.prems(2) show ?thesis by simp
  qed
qed

lemma run_event_same_clients:
  "connected_clients s = connected_clients s' \<Longrightarrow>
   connected_clients (run_event ev s) = connected_clients (run_event ev s')"
  by (cases ev) (simp_all add: handler_unregister_def set_remove_def)

lemma run_events_same_clients:
  "connected_clients s = connected_clients s' \<Longrightarrow>
   connected_clients (run_events evs s) = connected_clients (run_events evs s')"
  unfolding run_events_def
proof (induction evs arbitrary: s s')
  case Nil
  then show ?case by simp
next
  case (Cons ev evs)
  from Cons.prems
  have "connected_clients (run_event ev s) = connected_clients (run_event ev s')"
    by (rule run_event_same_clients)
  then have "connected_clients (fold run_event evs (run_event ev s))
      = connected_clients (fold run_event evs (run_event ev s'))"
    by (rule Cons.IH)
  then show ?case by simp
qed

lemma clients_run_events_add_log [simp]:
  "connected_clients (run_events evs (add_log l s)) = connected_clients (run_events evs s)"
  by (rule run_events_same_clients) simp

lemma run_events_Nil [simp]: "run_events [] s = s"
  by (simp add: run_events_def)

lemma gather_all_ok: "\<forall>c \<in> set cs. f c = None \<Longrightarrow> gather (map f cs) = None"
  by (simp add: gather_None_iff)

lemma delivered_all_ok:
  "\<forall>c \<in> set cs. send c m = None \<Longrightarrow>
   delivered send (map (\<lambda>c. (c, m)) cs) = map (\<lambda>c. (c, m)) cs"
  by (simp add: delivered_def filter_map comp_def)

lemma delivered_but_one:
  "send c m \<noteq> None \<Longrightarrow> \<forall>c' \<in> set cs - {c}. send c' m = None \<Longrightarrow>
   delivered send (map (\<lambda>c. (c, m)) cs) = map (\<lambda>c'. (c', m)) (filter (\<lambda>c'. c' \<noteq> c) cs)"
  unfolding delivered_def filter_map comp_def
  by (rule arg_cong [where f = "map (\<lambda>c. (c, m))"], rule filter_cong) auto

lemma broadcast_signal_sending:
  assumes "connected_clients s \<noteq> []" and "dumps signal_data = Inr message"
  shows "broadcast_signal dumps send during s signal_data =
     (let ts = map (\<lambda>client. (client, message)) (connected_clients s);
          s2 = run_events during (add_log (INFO, PreparingBroadcast message) s)
      in case gather (map (\<lambda>client. send client message) (connected_clients s)) of
           Some e \<Rightarrow> \<lparr>ended = Raised e, tasks = ts, frames = delivered send ts, after = s2\<rparr>
         | None \<Rightarrow>
             \<lparr>ended = Returned, tasks = ts, frames = delivered send ts,
              after = add_log (INFO, BroadcastDone (length (connected_clients s2))) s2\<rparr>)"
  using assms by (simp add: broadcast_signal_def Let_def comp_def split: option.splits)

lemma example_dumps_signal: "example_dumps example_signal = Inr example_message"
  by (simp add: example_dumps_def example_message_def)

lemma example_loads_message: "example_loads example_message = Some example_signal"
  by (simp add: example_loads_def example_message_def example_signal_def dquote_def)

section \<open>Claims about the broadcast\<close>

text \<open>
  C3. A broadcast over an empty registry returns at once: it ends by returning (no
  exception), creates no send task and delivers no frame; all it does is log the
  warning that no client is connected. The serialiser is not even called, and handler
  events cannot run in between, since the coroutine never suspends.
\<close>

theorem broadcast_empty_is_noop:
  "connected_clients s = [] \<Longrightarrow>
   broadcast_signal dumps send during s signal_data
     = \<lparr>ended = Returned, tasks = [], frames = [], after = add_log (WARNING, NoClients) s\<rparr>"
  by (simp add: broadcast_signal_def)

theorem broadcast_empty_is_noop_witness:
  "connected_clients init_server = []
   \<and> broadcast_signal example_dumps one_closed [Connect 4] init_server example_signal
     = \<lparr>ended = Returned, tasks = [], frames = [],
        after = \<lparr>connected_clients = [],
                 logged = [(INFO, ServerInitialised), (WARNING, NoClients)]\<rparr>\<rparr>"
  using broadcast_empty_is_noop [of init_server example_dumps one_closed "[Connect 4]" example_signal]
  by (simp add: init_server_def add_log_def)

text \<open>
  C2. When every send succeeds, a broadcast over a registry of N connections (N may be 0)
  returns and delivers exactly N frames, one for each connection of the registry in
  turn, every frame being the one text \<^verbatim>\<open>json.dumps\<close> gives for the signal, which
  decodes to the signal. That the library's serialiser accepts the signal and that its
  reader inverts it are the two assumptions about the library.
\<close>

theorem broadcast_all_sends_succeed:
  assumes "\<forall>client \<in> set (connected_clients s). send client message = None"
      and "dumps signal_data = Inr message"
      and "loads message = Some signal_data"
  shows "ended (broadcast_signal dumps send during s signal_data) = Returned
     \<and> length (frames (broadcast_signal dumps send during s signal_data))
         = length (connected_clients s)
     \<and> map fst (frames (broadcast_signal dumps send during s signal_data))
         = connected_clients s
     \<and> (\<forall>frame \<in> set (frames (broadcast_signal dumps send during s signal_data)).
           snd frame = message \<and> loads (snd frame) = Some signal_data)"
proof (cases "connected_clients s = []")
  case True
  then show ?thesis by (simp add: broadcast_signal_def)
next
  case False
  from assms(1) have "gather (map (\<lambda>client. send client message) (connected_clients s)) = None"
    by (rule gather_all_ok)
  moreover have "delivered send (map (\<lambda>client. (client, message)) (connected_clients s))
      = map (\<lambda>client. (client, message)) (connected_clients s)"
    using assms(1) by (rule delivered_all_ok)
  moreover note False assms(2)
  ultimately
  have "frames (broadcast_signal dumps send during s signal_data)
          = map (\<lambda>client. (client, message)) (connected_clients s)"
    and "ended (broadcast_signal dumps send during s signal_data) = Returned"
    by (simp_all add: broadcast_signal_sending Let_def)
  with assms(3) show ?thesis by (simp add: comp_def)
qed

theorem broadcast_all_sends_succeed_witness:
  "map (\<lambda>client. all_open client example_message) (connected_clients three_clients)
     = [None, None, None]
   \<and> example_dumps example_signal = Inr example_message
   \<and> example_loads example_message = Some example_signal
   \<and> ended (broadcast_signal example_dumps all_open [] three_clients example_signal) = Returned
   \<and> frames (broadcast_signal example_dumps all_open [] three_clients example_signal)
       = [(4, example_message), (5, example_message), (6, example_message)]
   \<and> map (\<lambda>frame. example_loads (snd frame))
         (frames (broadcast_signal example_dumps all_open [] three_clients example_signal))
       = [Some example_signal, Some example_signal, Some example_signal]"
proof -
  have h1: "\<forall>client \<in> set (connected_clients three_clients). all_open client example_message = None"
    by (simp add: all_open_def)
  have fr: "frames (broadcast_signal example_dumps all_open [] three_clients example_signal)
       = [(4, example_message), (5, example_message), (6, example_message)]"
    by (simp add: broadcast_signal_def example_dumps_signal three_clients_def all_open_def
        delivered_def Let_def)
  from broadcast_all_sends_succeed
         [where s = three_clients and send = all_open and message = example_message
            and dumps = example_dumps and signal_data = example_signal
            and loads = example_loads and during = "[]",
          OF h1 example_dumps_signal example_loads_message]
    h1 fr example_dumps_signal example_loads_message
  show ?thesis by (simp add: three_clients_def all_open_def)
qed

text \<open>
  C1, as the code has it. When the send to exactly one connection of the registry fails,
  \<^verbatim>\<open>gather\<close> raises that send's exception in \<^verbatim>\<open>broadcast_signal\<close>, which does
  not catch it: the call ends by raising it. The broadcast removes nobody from the
  registry (the failing connection stays until its own handler removes it) and logs
  nothing after the line that announces the broadcast. A send task was created for every
  connection before the wait, and none is cancelled: every other connection gets its
  frame.
\<close>

theorem broadcast_one_send_fails:
  assumes "dumps signal_data = Inr message"
      and "client \<in> set (connected_clients s)"
      and "send client message = Some e"
      and "\<forall>other \<in> set (connected_clients s) - {client}. send other message = None"
  shows "ended (broadcast_signal dumps send during s signal_data) = Raised e
     \<and> connected_clients (after (broadcast_signal dumps send during s signal_data))
         = connected_clients (run_events during s)
     \<and> logged (after (broadcast_signal dumps send during s signal_data))
         = logged (run_events during (add_log (INFO, PreparingBroadcast message) s))
     \<and> map fst (tasks (broadcast_signal dumps send during s signal_data))
         = connected_clients s
     \<and> frames (broadcast_signal dumps send during s signal_data)
         = map (\<lambda>other. (other, message)) (filter (\<lambda>other. other \<noteq> client) (connected_clients s))"
proof -
  from assms(2) have ne: "connected_clients s \<noteq> []" by auto
  from assms(2,3,4)
  have g: "gather (map (\<lambda>client. send client message) (connected_clients s)) = Some e"
    by (rule gather_single_failure)
  from assms(3) have "send client message \<noteq> None" by simp
  then have "delivered send (map (\<lambda>client. (client, message)) (connected_clients s))
      = map (\<lambda>other. (other, message)) (filter (\<lambda>other. other \<noteq> client) (connected_clients s))"
    using assms(4) by (rule delivered_but_one)
  with g ne assms(1) show ?thesis by (simp add: broadcast_signal_sending Let_def comp_def)
qed

theorem broadcast_one_send_fails_witness:
  "example_dumps example_signal = Inr example_message
   \<and> 4 \<in> set (connected_clients three_clients)
   \<and> one_closed 4 example_message = Some ConnectionClosed
   \<and> map (\<lambda>other. one_closed other example_message) (connected_clients three_clients)
       = [Some ConnectionClosed, None, None]
   \<and> ended (broadcast_signal example_dumps one_closed [] three_clients example_signal)
       = Raised ConnectionClosed
   \<and> connected_clients (after (broadcast_signal example_dumps one_closed [] three_clients example_signal))
       = [4, 5, 6]
   \<and> frames (broadcast_signal example_dumps one_closed [] three_clients example_signal)
       = [(5, example_message), (6, example_message)]"
proof -
  have h2: "4 \<in> set (connected_clients three_clients)"
    by (simp add: three_clients_def)
  have h3: "one_closed 4 example_message = Some ConnectionClosed"
    by (simp add: one_closed_def)
  have h4: "\<forall>other \<in> set (connected_clients three_clients) - {4}.
      one_closed other example_message = None"
    by (simp add: one_closed_def)
  from broadcast_one_send_fails
         [where s = three_clients and send = one_closed and message = example_message
            and dumps = example_dumps and signal_data = example_signal and client = 4
            and e = ConnectionClosed and during = "[]",
          OF example_dumps_signal h2 h3 h4]
    h2 h3 h4
    example_dumps_signal
  show ?thesis by (simp add: three_clients_def one_closed_def)
qed

text \<open>
  C1 as the specification states it fails: with three clients of which one has a closed
  transport, the call raises instead of reporting a partial success, and afterwards the
  closed client is still registered.
\<close>

theorem broadcast_failure_propagates:
  "ended (broadcast_signal example_dumps one_closed [] three_clients example_signal)
     = Raised ConnectionClosed
   \<and> connected_clients
        (after (broadcast_signal example_dumps one_closed [] three_clients example_signal))
     = [4, 5, 6]"
  by (simp add: broadcast_signal_def example_dumps_signal three_clients_def one_closed_def
      Let_def)

text \<open>
  C9. The recipients of a broadcast are fixed before its only suspension point: the send
  tasks, the frames delivered and the way the call ends are the same whatever handler
  events (connections, messages, disconnections) the loop runs while the sends are in
  flight, and the tasks are one per connection of the registry as it was at the call.
\<close>

theorem recipients_fixed_at_start:
  "tasks (broadcast_signal dumps send during s signal_data)
     = tasks (broadcast_signal dumps send [] s signal_data)
   \<and> frames (broadcast_signal dumps send during s signal_data)
     = frames (broadcast_signal dumps send [] s signal_data)
   \<and> ended (broadcast_signal dumps send during s signal_data)
     = ended (broadcast_signal dumps send [] s signal_data)
   \<and> map fst (tasks (broadcast_signal dumps send during s signal_data))
     = (case dumps signal_data of Inl e \<Rightarrow> [] | Inr message \<Rightarrow> connected_clients s)"
  by (simp add: broadcast_signal_def Let_def comp_def split: sum.splits option.splits)

text \<open>
  C10. \<^verbatim>\<open>broadcast_signal\<close> itself neither adds nor removes a connection, however it
  ends and whatever the sends do: with no handler running in between, the registry after
  the call is the registry before it; with handler events in between, it is what those
  events alone make of the registry (they only run when the call got as far as waiting
  for its send tasks).
\<close>

theorem broadcast_keeps_registry:
  "connected_clients (after (broadcast_signal dumps send [] s signal_data))
     = connected_clients s
   \<and> connected_clients (after (broadcast_signal dumps send during s signal_data))
     = connected_clients
         (if tasks (broadcast_signal dumps send during s signal_data) = [] then s
          else run_events during s)"
  by (simp add: broadcast_signal_def Let_def comp_def split: sum.splits option.splits)

section \<open>Facts about the example engine\<close>

lemma example_engine_eq:
  "example_engine =
     \<lparr>active = True,
      ws_server = Some \<lparr>connected_clients = [4, 5],
        logged = [(INFO, ServerInitialised), (INFO, ServerStarting), (INFO, ServerStarted),
                  (INFO, ClientConnected 4 1), (INFO, ClientConnected 5 2)]\<rparr>,
      async_loop = Some LoopRunning,
      async_thread = Some \<lparr>daemon = True, alive = True\<rparr>,
      engine_logged = [(INFO, EngineInitialising), (INFO, EngineInitialised), (INFO, EngineStarting),
                       (INFO, AsyncThreadStarted), (INFO, EngineStarted)]\<rparr>"
  by (simp add: example_engine_def connect_client_def run_async_in_thread_def start_def
      init_engine_def start_async_components_def engine_log_def start_server_def init_server_def
      handler_register_def set_add_def add_log_def Let_def)

lemma frames_example_engine:
  "frames (engine_broadcast_signal example_dumps all_open [] example_engine example_signal)
     = [(4, example_message), (5, example_message)]"
  by (simp add: engine_broadcast_signal_def example_engine_eq broadcast_signal_def
      example_dumps_signal all_open_def delivered_def Let_def)

lemma ended_example_engine:
  "ended (engine_broadcast_signal example_dumps all_open [] example_engine example_signal)
     = Returned"
  by (simp add: engine_broadcast_signal_def example_engine_eq broadcast_signal_def
      example_dumps_signal all_open_def delivered_def Let_def)

section \<open>Claims about the engine and the bridge\<close>

text \<open>
  C8, as the code has it. \<^verbatim>\<open>stop()\<close> clears the flag \<^verbatim>\<open>active\<close> and logs: two lines
  on an engine that was active, a warning otherwise. It leaves the event loop, the
  worker thread and the server as they are: nothing is cancelled, stopped, closed or
  joined.
\<close>

theorem stop_only_clears_active:
  "async_loop (stop e) = async_loop e
   \<and> async_thread (stop e) = async_thread e
   \<and> ws_server (stop e) = ws_server e
   \<and> active (stop e) = False
   \<and> engine_logged (stop e) = engine_logged e @
        (if active e then [(INFO, EngineStopping), (INFO, EngineStopped)]
         else [(WARNING, EngineNotRunning)])"
  by (simp add: stop_def engine_log_def Let_def)

text \<open>
  C8 as the specification states it fails: after \<^verbatim>\<open>stop()\<close> on a started engine the
  loop is still running and its worker is still a live daemon thread.
\<close>

theorem stop_leaves_loop_running:
  "active example_engine
   \<and> async_loop (stop example_engine) = Some LoopRunning
   \<and> async_thread (stop example_engine) = Some \<lparr>daemon = True, alive = True\<rparr>"
  by (simp add: example_engine_eq stop_def engine_log_def Let_def)

text \<open>
  C7, as the code has it. While \<^verbatim>\<open>async_loop\<close> is \<^verbatim>\<open>None\<close> (the worker has not
  created the loop yet), \<^verbatim>\<open>broadcast_signal_sync\<close> logs an error and returns
  \<^verbatim>\<open>None\<close> at once: it raises nothing and hands no coroutine to any loop.
  \<^verbatim>\<open>stop()\<close> does not reset \<^verbatim>\<open>async_loop\<close>: a call after \<^verbatim>\<open>stop()\<close> gives the
  caller what the same call before it gives, and schedules the same sends.
\<close>

theorem sync_before_loop_exists:
  "(async_loop e = None \<longrightarrow>
      broadcast_signal_sync dumps send during w e signal_data
        = \<lparr>caller_gets = Returned, submitted = None,
           engine_after = engine_log (ERROR, LoopNotReady) e\<rparr>)
   \<and> async_loop (stop e) = async_loop e
   \<and> caller_gets (broadcast_signal_sync dumps send during w (stop e) signal_data)
       = caller_gets (broadcast_signal_sync dumps send during w e signal_data)
   \<and> map_option frames (submitted (broadcast_signal_sync dumps send during w (stop e) signal_data))
       = map_option frames (submitted (broadcast_signal_sync dumps send during w e signal_data))"
  by (simp add: broadcast_signal_sync_def engine_broadcast_signal_def stop_def engine_log_def
      Let_def split: option.splits loop_state.splits wait.splits outcome.splits)

theorem sync_before_loop_exists_witness:
  "async_loop init_engine = None
   \<and> broadcast_signal_sync example_dumps all_open [] Completes init_engine example_signal
       = \<lparr>caller_gets = Returned, submitted = None,
          engine_after = init_engine\<lparr>engine_logged :=
            [(INFO, EngineInitialising), (INFO, EngineInitialised), (ERROR, LoopNotReady)]\<rparr>\<rparr>
   \<and> async_loop (stop example_engine) = Some LoopRunning
   \<and> map_option frames
         (submitted (broadcast_signal_sync example_dumps all_open [] Completes
            (stop example_engine) example_signal))
       = map_option frames
         (submitted (broadcast_signal_sync example_dumps all_open [] Completes
            example_engine example_signal))"
  using sync_before_loop_exists [of init_engine example_dumps all_open "[]" Completes example_signal]
        sync_before_loop_exists [of example_engine example_dumps all_open "[]" Completes example_signal]
  by (simp add: init_engine_def engine_log_def example_engine_eq)

text \<open>
  C7 as the specification states it fails: before the start the caller gets an ordinary
  return, not an error; after \<^verbatim>\<open>stop()\<close> the broadcast is performed and both
  clients get their frame.
\<close>

theorem sync_hides_unavailable_loop:
  "caller_gets (broadcast_signal_sync example_dumps all_open [] Completes init_engine example_signal)
     = Returned
   \<and> map_option frames
        (submitted (broadcast_signal_sync example_dumps all_open [] Completes
           (stop example_engine) example_signal))
     = Some [(4, example_message), (5, example_message)]"
  using frames_example_engine
  by (simp add: broadcast_signal_sync_def init_engine_def example_engine_eq stop_def engine_log_def
      engine_broadcast_signal_def broadcast_signal_def
      example_dumps_signal all_open_def delivered_def Let_def)

text \<open>
  C6, as the code has it. When the wait on a running loop times out,
  \<^verbatim>\<open>broadcast_signal_sync\<close> catches the timeout, logs it as an error line of its own
  and returns \<^verbatim>\<open>None\<close>, as it does on success; the console command prints its
  timeout line and goes on. Neither cancels the coroutine: what was handed to the loop is
  the same run, with the same sends, as when the wait succeeds.
\<close>

theorem sync_timeout_returns_none:
  assumes "async_loop e = Some LoopRunning"
  shows "caller_gets (broadcast_signal_sync dumps send during TimesOut e signal_data) = Returned
     \<and> submitted (broadcast_signal_sync dumps send during TimesOut e signal_data)
         = Some (engine_broadcast_signal dumps send during e signal_data)
     \<and> submitted (broadcast_signal_sync dumps send during TimesOut e signal_data)
         = submitted (broadcast_signal_sync dumps send during Completes e signal_data)
     \<and> engine_logged (engine_after (broadcast_signal_sync dumps send during TimesOut e signal_data))
         = engine_logged (after (engine_broadcast_signal dumps send during e signal_data))
             @ [(ERROR, BroadcastTimedOut)]
     \<and> listener_gets (console_test_signal dumps send during TimesOut e signal_data) = Returned
     \<and> printed_lines (console_test_signal dumps send during TimesOut e signal_data)
         = [PrintBroadcasting, PrintTimeout]
     \<and> console_submitted (console_test_signal dumps send during TimesOut e signal_data)
         = Some (engine_broadcast_signal dumps send during e signal_data)"
  using assms
  by (simp add: broadcast_signal_sync_def console_test_signal_def engine_log_def Let_def
      split: outcome.splits)

theorem sync_timeout_returns_none_witness:
  "async_loop example_engine = Some LoopRunning
   \<and> caller_gets (broadcast_signal_sync example_dumps all_open [] TimesOut example_engine
        example_signal) = Returned
   \<and> map_option frames (submitted (broadcast_signal_sync example_dumps all_open [] TimesOut
        example_engine example_signal))
       = Some [(4, example_message), (5, example_message)]
   \<and> printed_lines (console_test_signal example_dumps all_open [] TimesOut example_engine
        example_signal) = [PrintBroadcasting, PrintTimeout]"
proof -
  have h: "async_loop example_engine = Some LoopRunning"
    by (simp add: example_engine_eq)
  from sync_timeout_returns_none [OF h, of example_dumps all_open "[]" example_signal]
    h frames_example_engine
  show ?thesis by simp
qed

text \<open>
  C6 as the specification states it fails: the caller of \<^verbatim>\<open>broadcast_signal_sync\<close>
  gets the same plain return after a timeout as after a completed broadcast.
\<close>

theorem sync_timeout_not_distinct:
  "caller_gets (broadcast_signal_sync example_dumps all_open [] TimesOut example_engine
     example_signal) = Returned
   \<and> caller_gets (broadcast_signal_sync example_dumps all_open [] Completes example_engine
     example_signal) = Returned"
  using ended_example_engine
  by (simp add: broadcast_signal_sync_def example_engine_eq Let_def)

end
